theory Spec2Isabelle
  imports Complex_Main
begin

section \<open>Python values\<close>

text \<open>
  The values \<open>json.loads\<close> produces, which are also the values the module stores in its
  dictionaries. \<open>'f\<close> is the carrier of Python's \<open>float\<close>; the module never computes with
  floats, it only parses, stores and forwards them. A \<open>dict\<close> with string keys is an
  association list read with \<open>map_of\<close>. Logging is left out: it changes nothing the module
  reads.
\<close>

datatype 'f json =
    JNull
  | JBool bool
  | JInt int
  | JFloat 'f
  | JStr string
  | JList "'f json list"
  | JDict "(string \<times> 'f json) list"

type_synonym 'f pydict = "(string \<times> 'f json) list"

text \<open>Keys of \<open>EMA_STATE\<close>: the hashable values a truthy \<open>data.get("ticker")\<close> can be.
  Python compares and hashes \<open>True\<close>, \<open>1\<close> and \<open>1.0\<close> as one key, so a number is stored as
  \<open>KInt\<close> whenever it equals an integer. (A NaN, which Python keys by object identity, is one
  key \<open>KFloat\<close> here.) The handlers look a ticker up as a \<open>str\<close>, that is under \<open>KStr\<close>.\<close>

datatype 'f pykey = KNone | KStr string | KInt int | KFloat 'f

text \<open>The one exception that leaves the module's functions: \<open>TypeError: unhashable type\<close>,
  with the name of the type.\<close>

datatype pyerror = Unhashable_type string

text \<open>The order payload \<open>tp_payload\<close>: \<open>ticker\<close> and \<open>action\<close> are always set,
  \<open>quantity\<close> and \<open>price\<close> are keys that may be absent.\<close>

record 'f payload =
  p_ticker :: string
  p_action :: string
  p_quantity :: "int option"
  p_price :: "'f option"

text \<open>What \<open>requests.post\<close> returns: \<open>resp.ok\<close>, \<open>resp.status_code\<close>, \<open>resp.text\<close>.\<close>

record http_response =
  resp_ok :: bool
  resp_status_code :: int
  resp_text :: string

text \<open>The dictionary \<open>send_to_traderspost\<close> returns: \<open>{"ok": False, "error": e}\<close> or
  \<open>{"ok": resp.ok, "status_code": ..., "body": ...}\<close>.\<close>

datatype tp_result =
    TpError string
  | TpResponse bool int string

fun tp_ok :: "tp_result \<Rightarrow> bool" where
  "tp_ok (TpError e) = False"
| "tp_ok (TpResponse ok code body) = ok"

text \<open>The dictionary the two handlers return: \<open>{"ok": True, "skipped": reason}\<close> or
  \<open>{"ok": result.get("ok", False), "detail": result}\<close>.\<close>

datatype handler_result =
    Skipped string
  | Detail bool tp_result

fun result_ok :: "handler_result \<Rightarrow> bool" where
  "result_ok (Skipped reason) = True"
| "result_ok (Detail ok detail) = ok"

text \<open>An entry of \<open>LAST_TRADES\<close>; the constructor is the \<open>last_event\<close> key
  (\<open>"new_trade"\<close> or \<open>"exit"\<close>), the arguments are the other keys in the order of the
  dictionary literal.\<close>

datatype 'f trade =
    New_trade string "'f option" "'f json" "'f json" "'f pydict" "string option" tp_result
  | Exit_trade "'f option" "string option" tp_result

section \<open>Configuration, runtime and state\<close>

record config =
  WEBHOOK_SECRET :: string
  TP_WEBHOOK_URL :: string
  TP_DEFAULT_QTY :: int

text \<open>
  The Python built-ins and libraries the module calls, taken as parameters: \<open>float\<close> on a
  string and on an int (\<open>None\<close> when it raises), truth value and \<open>repr\<close> of a float, the
  integer a float equals (for dictionary keys), \<open>repr\<close> of a list or dict,
  \<open>json.loads\<close> (\<open>None\<close> when it raises), the two compiled patterns' \<open>search\<close> giving the
  groups \<open>ticker\<close> and \<open>price\<close>, and \<open>requests.post\<close>, which sees the requests made
  before and either raises (\<open>Inl\<close> of \<open>str(e)\<close>) or answers.
\<close>

record 'f runtime =
  float_zero :: 'f
  float_of_str :: "string \<Rightarrow> 'f option"
  float_of_int :: "int \<Rightarrow> 'f option"
  float_bool :: "'f \<Rightarrow> bool"
  float_as_int :: "'f \<Rightarrow> int option"
  float_repr :: "'f \<Rightarrow> string"
  compound_repr :: "'f json \<Rightarrow> string"
  json_loads :: "string \<Rightarrow> 'f json option"
  TITAN_RE_search :: "string \<Rightarrow> (string \<times> string) option"
  EXIT_RE_search :: "string \<Rightarrow> (string \<times> string) option"
  requests_post :: "(string \<times> 'f payload) list \<Rightarrow> string \<Rightarrow> 'f payload \<Rightarrow> string + http_response"

text \<open>
  The module's two global dictionaries, and two traces of its effects: the payloads
  \<open>send_to_traderspost\<close> was called with, and the calls of \<open>requests.post\<close> (URL and
  payload). \<open>LAST_TRADES\<close> is keyed by the \<open>str\<close> ticker the handlers are called with.
\<close>

record 'f state =
  EMA_STATE :: "'f pykey \<rightharpoonup> 'f pydict"
  LAST_TRADES :: "string \<rightharpoonup> 'f trade"
  gateway_calls :: "'f payload list"
  http_posts :: "(string \<times> 'f payload) list"

definition initial_state :: "'f state" where
  "initial_state = \<lparr>EMA_STATE = Map.empty, LAST_TRADES = Map.empty, gateway_calls = [], http_posts = []\<rparr>"

section \<open>Built-in operations on values\<close>

definition dict_get :: "'f pydict \<Rightarrow> string \<Rightarrow> 'f json \<Rightarrow> 'f json" where
  \<comment> \<open>\<open>d.get(k, default)\<close>\<close>
  "dict_get d k dflt = (case map_of d k of None \<Rightarrow> dflt | Some v \<Rightarrow> v)"

fun py_truthy :: "'f runtime \<Rightarrow> 'f json \<Rightarrow> bool" where
  "py_truthy rt JNull = False"
| "py_truthy rt (JBool b) = b"
| "py_truthy rt (JInt i) = (i \<noteq> 0)"
| "py_truthy rt (JFloat f) = float_bool rt f"
| "py_truthy rt (JStr s) = (s \<noteq> [])"
| "py_truthy rt (JList xs) = (xs \<noteq> [])"
| "py_truthy rt (JDict d) = (d \<noteq> [])"

fun show_nat :: "nat \<Rightarrow> string" where
  "show_nat n =
     (if n < 10 then [''0123456789'' ! n]
      else show_nat (n div 10) @ [''0123456789'' ! (n mod 10)])"

declare show_nat.simps [simp del]

definition show_int :: "int \<Rightarrow> string" where
  "show_int i = (if i < 0 then CHR ''-'' # show_nat (nat (- i)) else show_nat (nat i))"

fun py_str :: "'f runtime \<Rightarrow> 'f json \<Rightarrow> string" where
  "py_str rt JNull = ''None''"
| "py_str rt (JBool b) = (if b then ''True'' else ''False'')"
| "py_str rt (JInt i) = show_int i"
| "py_str rt (JFloat f) = float_repr rt f"
| "py_str rt (JStr s) = s"
| "py_str rt (JList xs) = compound_repr rt (JList xs)"
| "py_str rt (JDict d) = compound_repr rt (JDict d)"

definition lower_char :: "char \<Rightarrow> char" where
  "lower_char c =
     (case map_of (zip ''ABCDEFGHIJKLMNOPQRSTUVWXYZ'' ''abcdefghijklmnopqrstuvwxyz'') c of
        Some l \<Rightarrow> l
      | None \<Rightarrow> c)"

definition py_lower :: "string \<Rightarrow> string" where
  \<comment> \<open>\<open>s.lower()\<close> on the letters A to Z; no other character lowers to one of t, r, u, e\<close>
  "py_lower s = map lower_char s"

fun py_float :: "'f runtime \<Rightarrow> 'f json \<Rightarrow> 'f option" where
  \<comment> \<open>\<open>float(v)\<close>; \<open>None\<close> is the exception the caller catches\<close>
  "py_float rt (JStr s) = float_of_str rt s"
| "py_float rt (JInt i) = float_of_int rt i"
| "py_float rt (JBool b) = float_of_int rt (if b then 1 else 0)"
| "py_float rt (JFloat f) = Some f"
| "py_float rt JNull = None"
| "py_float rt (JList xs) = None"
| "py_float rt (JDict d) = None"

fun dict_key :: "'f runtime \<Rightarrow> 'f json \<Rightarrow> pyerror + 'f pykey" where
  \<comment> \<open>the key a value is stored under; lists and dicts are unhashable\<close>
  "dict_key rt JNull = Inr KNone"
| "dict_key rt (JBool b) = Inr (KInt (if b then 1 else 0))"
| "dict_key rt (JInt i) = Inr (KInt i)"
| "dict_key rt (JFloat f) = Inr (case float_as_int rt f of Some i \<Rightarrow> KInt i | None \<Rightarrow> KFloat f)"
| "dict_key rt (JStr s) = Inr (KStr s)"
| "dict_key rt (JList xs) = Inl (Unhashable_type ''list'')"
| "dict_key rt (JDict d) = Inl (Unhashable_type ''dict'')"

section \<open>The helpers of the module\<close>

definition send_to_traderspost ::
  "'f runtime \<Rightarrow> config \<Rightarrow> 'f payload \<Rightarrow> 'f state \<Rightarrow> tp_result \<times> 'f state" where
  "send_to_traderspost rt cfg payload s =
     (let s1 = s\<lparr>gateway_calls := gateway_calls s @ [payload]\<rparr> in
      if TP_WEBHOOK_URL cfg = [] then (TpError ''TP_WEBHOOK_URL not set'', s1)
      else
        (let s2 = s1\<lparr>http_posts := http_posts s1 @ [(TP_WEBHOOK_URL cfg, payload)]\<rparr> in
         case requests_post rt (http_posts s1) (TP_WEBHOOK_URL cfg) payload of
           Inr resp \<Rightarrow> (TpResponse (resp_ok resp) (resp_status_code resp) (resp_text resp), s2)
         | Inl e \<Rightarrow> (TpError e, s2)))"

definition float_or_zero :: "'f runtime \<Rightarrow> 'f pydict \<Rightarrow> string \<Rightarrow> 'f" where
  \<comment> \<open>\<open>try: x = float(data.get(k, 0.0))  except Exception: x = 0.0\<close>\<close>
  "float_or_zero rt data k =
     (case py_float rt (dict_get data k (JFloat (float_zero rt))) of
        Some f \<Rightarrow> f
      | None \<Rightarrow> float_zero rt)"

definition update_ema_state_from_json :: "'f runtime \<Rightarrow> 'f pydict \<Rightarrow> 'f state \<Rightarrow> pyerror + 'f state" where
  "update_ema_state_from_json rt data s =
     (let ticker = dict_get data ''ticker'' JNull in
      if \<not> py_truthy rt ticker then Inr s
      else
        (let above13_raw = py_lower (py_str rt (dict_get data ''above13'' (JStr '''')));
             above200_raw = py_lower (py_str rt (dict_get data ''above200'' (JStr '''')));
             above13 = (if above13_raw = ''true'' then True else False);
             above200 = (if above200_raw = ''true'' then True else False);
             ema13 = float_or_zero rt data ''ema13'';
             ema200 = float_or_zero rt data ''ema200'';
             close = float_or_zero rt data ''close'';
             time_v = dict_get data ''time'' (JStr '''')
         in case dict_key rt ticker of
              Inl e \<Rightarrow> Inl e
            | Inr k \<Rightarrow>
                Inr (s\<lparr>EMA_STATE := (EMA_STATE s)(k \<mapsto>
                  [(''above13'', JBool above13),
                   (''above200'', JBool above200),
                   (''ema13'', JFloat ema13),
                   (''ema200'', JFloat ema200),
                   (''close'', JFloat close),
                   (''time'', time_v)])\<rparr>)))"

definition parse_titan_new_trade :: "'f runtime \<Rightarrow> string \<Rightarrow> (string \<times> 'f option) option" where
  \<comment> \<open>\<open>None\<close> is the empty dict; otherwise the ticker, and the price unless \<open>float\<close> raises\<close>
  "parse_titan_new_trade rt text =
     (case TITAN_RE_search rt text of
        None \<Rightarrow> None
      | Some (ticker, price) \<Rightarrow> Some (ticker, float_of_str rt price))"

definition parse_exit_signal :: "'f runtime \<Rightarrow> string \<Rightarrow> (string \<times> 'f option) option" where
  "parse_exit_signal rt text =
     (case EXIT_RE_search rt text of
        None \<Rightarrow> None
      | Some (ticker, price) \<Rightarrow> Some (ticker, float_of_str rt price))"

definition handle_new_trade_for_ticker ::
  "'f runtime \<Rightarrow> config \<Rightarrow> string \<Rightarrow> 'f option \<Rightarrow> string option \<Rightarrow> 'f state \<Rightarrow> handler_result \<times> 'f state" where
  "handle_new_trade_for_ticker rt cfg ticker price time_str s =
     (case EMA_STATE s (KStr ticker) of
        None \<Rightarrow> (Skipped ''no_ema_state'', s)
      | Some ema_info \<Rightarrow>
          if ema_info = [] then (Skipped ''no_ema_state'', s)
          else
            (let above13 = dict_get ema_info ''above13'' JNull;
                 above200 = dict_get ema_info ''above200'' JNull
             in if above13 = JNull \<or> above200 = JNull then (Skipped ''missing_ema_fields'', s)
                else
                  (case (if py_truthy rt above13 \<and> py_truthy rt above200 then Some ''buy''
                         else if \<not> py_truthy rt above13 \<and> \<not> py_truthy rt above200 then Some ''sell''
                         else None) of
                     None \<Rightarrow> (Skipped ''ema_alignment_filter'', s)
                   | Some direction \<Rightarrow>
                       (let tp_payload = \<lparr>p_ticker = ticker, p_action = direction,
                              p_quantity = (if TP_DEFAULT_QTY cfg > 0 then Some (TP_DEFAULT_QTY cfg) else None),
                              p_price = price\<rparr>;
                            (result, s1) = send_to_traderspost rt cfg tp_payload s;
                            s2 = s1\<lparr>LAST_TRADES := (LAST_TRADES s1)(ticker \<mapsto>
                                   New_trade direction price above13 above200 ema_info time_str result)\<rparr>
                        in (Detail (tp_ok result) result, s2)))))"

definition handle_exit_for_ticker ::
  "'f runtime \<Rightarrow> config \<Rightarrow> string \<Rightarrow> 'f option \<Rightarrow> string option \<Rightarrow> 'f state \<Rightarrow> handler_result \<times> 'f state" where
  "handle_exit_for_ticker rt cfg ticker price time_str s =
     (let tp_payload = \<lparr>p_ticker = ticker, p_action = ''exit'', p_quantity = None, p_price = price\<rparr>;
          (result, s1) = send_to_traderspost rt cfg tp_payload s;
          s2 = s1\<lparr>LAST_TRADES := (LAST_TRADES s1)(ticker \<mapsto> Exit_trade price time_str result)\<rparr>
      in (Detail (tp_ok result) result, s2))"

section \<open>The route\<close>

text \<open>A request to \<open>/webhook\<close>: \<open>request.args.get("secret")\<close> and the body as text.\<close>

record request =
  arg_secret :: "string option"
  raw_body :: string

text \<open>The JSON a response carries: \<open>{"ok": True}\<close>, \<open>{"ok": False, "error": e}\<close> or a
  handler's result; a response is the body and the status code.\<close>

datatype response_body =
    Ok_body
  | Error_body string
  | Result_body handler_result

definition webhook ::
  "'f runtime \<Rightarrow> config \<Rightarrow> request \<Rightarrow> 'f state \<Rightarrow> (pyerror + response_body \<times> int) \<times> 'f state" where
  "webhook rt cfg req s =
     (if WEBHOOK_SECRET cfg \<noteq> [] \<and> arg_secret req \<noteq> Some (WEBHOOK_SECRET cfg)
      then (Inr (Error_body ''invalid secret'', 403), s)
      else
        (case (case json_loads rt (raw_body req) of
                 Some (JDict data) \<Rightarrow> (if data \<noteq> [] then Some data else None)
               | _ \<Rightarrow> None) of
           Some data \<Rightarrow>
             (let msg_type = dict_get data ''type'' JNull in
              if msg_type = JStr ''ema_update'' then
                (case update_ema_state_from_json rt data s of
                   Inl e \<Rightarrow> (Inl e, s)
                 | Inr s' \<Rightarrow> (Inr (Ok_body, 200), s'))
              else (Inr (Error_body (''unknown json type '' @ py_str rt msg_type), 400), s))
         | None \<Rightarrow>
             (case parse_titan_new_trade rt (raw_body req) of
                Some (ticker, price) \<Rightarrow>
                  (let (result, s') = handle_new_trade_for_ticker rt cfg ticker price None s
                   in (Inr (Result_body result, if result_ok result then 200 else 500), s'))
              | None \<Rightarrow>
                  (case parse_exit_signal rt (raw_body req) of
                     Some (ticker, price) \<Rightarrow>
                       (let (result, s') = handle_exit_for_ticker rt cfg ticker price None s
                        in (Inr (Result_body result, if result_ok result then 200 else 500), s'))
                   | None \<Rightarrow> (Inr (Error_body ''unrecognized payload'', 400), s)))))"

section \<open>Sequences of calls\<close>

text \<open>
  The three functions that write the global dictionaries, as calls made one after the
  other from the empty dictionaries. An \<open>Update\<close> that raises leaves the state as it was.
\<close>

datatype 'f call =
    Update "'f pydict"
  | New_trade_signal string "'f option" "string option"
  | Exit_signal string "'f option" "string option"

fun apply_call :: "'f runtime \<Rightarrow> config \<Rightarrow> 'f call \<Rightarrow> 'f state \<Rightarrow> 'f state" where
  "apply_call rt cfg (Update data) s =
     (case update_ema_state_from_json rt data s of Inl e \<Rightarrow> s | Inr s' \<Rightarrow> s')"
| "apply_call rt cfg (New_trade_signal ticker price time_str) s =
     snd (handle_new_trade_for_ticker rt cfg ticker price time_str s)"
| "apply_call rt cfg (Exit_signal ticker price time_str) s =
     snd (handle_exit_for_ticker rt cfg ticker price time_str s)"

fun run_calls :: "'f runtime \<Rightarrow> config \<Rightarrow> 'f call list \<Rightarrow> 'f state \<Rightarrow> 'f state" where
  "run_calls rt cfg [] s = s"
| "run_calls rt cfg (c # cs) s = run_calls rt cfg cs (apply_call rt cfg c s)"

section \<open>The words of the specification\<close>

text \<open>A text that, case-insensitively, equals the literal word \<open>true\<close>.\<close>

fun is_true_word :: "string \<Rightarrow> bool" where
  "is_true_word [a, b, c, d] =
     ((a = CHR ''t'' \<or> a = CHR ''T'') \<and> (b = CHR ''r'' \<or> b = CHR ''R'') \<and>
      (c = CHR ''u'' \<or> c = CHR ''U'') \<and> (d = CHR ''e'' \<or> d = CHR ''E''))"
| "is_true_word txt = False"

section \<open>A configuration and a runtime for the examples\<close>

text \<open>The configuration of a process started with none of the environment variables set.\<close>

definition default_config :: config where
  "default_config = \<lparr>WEBHOOK_SECRET = [], TP_WEBHOOK_URL = [], TP_DEFAULT_QTY = 1\<rparr>"

text \<open>
  The examples take rational numbers for floats. \<open>decimal_value\<close> reads an unsigned
  decimal such as \<open>21065.00\<close>, which is what the price group \<open>[0-9.]+\<close> of the two patterns
  can hold; it fails on \<open>1.2.3\<close> and on a lone dot, as \<open>float\<close> does.
\<close>

definition digit_value :: "char \<Rightarrow> nat option" where
  "digit_value c = map_of (zip ''0123456789'' [0, 1, 2, 3, 4, 5, 6, 7, 8, 9]) c"

fun digits_value :: "string \<Rightarrow> nat \<Rightarrow> nat option" where
  "digits_value [] acc = Some acc"
| "digits_value (c # cs) acc =
     (case digit_value c of None \<Rightarrow> None | Some d \<Rightarrow> digits_value cs (10 * acc + d))"

definition decimal_value :: "string \<Rightarrow> rat option" where
  "decimal_value txt =
     (let ip = takeWhile (\<lambda>c. c \<noteq> CHR ''.'') txt;
          fp = drop (Suc (length ip)) txt
      in if ip = [] \<and> fp = [] then None
         else (case (digits_value ip 0, digits_value fp 0) of
                 (Some a, Some b) \<Rightarrow> Some (of_nat a + of_nat b / 10 ^ length fp)
               | _ \<Rightarrow> None))"

text \<open>
  In the example runtime the broker answers every request with status 200; no body is
  JSON and no text matches a pattern unless an example sets \<open>json_loads\<close> or a search
  itself, and the two \<open>repr\<close> functions, which no example reaches, are constant.
\<close>

definition example_runtime :: "rat runtime" where
  "example_runtime =
     \<lparr>float_zero = 0,
      float_of_str = decimal_value,
      float_of_int = (\<lambda>i. Some (of_int i)),
      float_bool = (\<lambda>f. f \<noteq> 0),
      float_as_int = (\<lambda>f. if of_int \<lfloor>f\<rfloor> = f then Some \<lfloor>f\<rfloor> else None),
      float_repr = (\<lambda>f. []),
      compound_repr = (\<lambda>v. []),
      json_loads = (\<lambda>body. None),
      TITAN_RE_search = (\<lambda>txt. None),
      EXIT_RE_search = (\<lambda>txt. None),
      requests_post = (\<lambda>posts url payload.
        Inr \<lparr>resp_ok = True, resp_status_code = 200, resp_text = ''accepted''\<rparr>)\<rparr>"

text \<open>The stored trend and the state of the examples: \<open>MNQZ2025\<close> with the two flags
  given, and the endpoint configured.\<close>

definition example_trend :: "bool \<Rightarrow> bool \<Rightarrow> rat pydict" where
  "example_trend a b =
     [(''above13'', JBool a), (''above200'', JBool b), (''ema13'', JFloat (84201 / 4)),
      (''ema200'', JFloat 20980), (''close'', JFloat 21060), (''time'', JStr ''2025-11-03T14:30:00Z'')]"

definition example_state :: "bool \<Rightarrow> bool \<Rightarrow> rat state" where
  "example_state a b = initial_state\<lparr>EMA_STATE := [KStr ''MNQZ2025'' \<mapsto> example_trend a b]\<rparr>"

definition example_config :: config where
  "example_config = default_config\<lparr>TP_WEBHOOK_URL := ''https://broker.example/hook''\<rparr>"

definition example_update :: "rat pydict" where
  "example_update =
     [(''type'', JStr ''ema_update''), (''ticker'', JStr ''MNQZ2025''), (''above13'', JStr ''TRUE''),
      (''above200'', JStr ''false''), (''ema13'', JStr ''21050.25''), (''ema200'', JStr ''n/a''),
      (''close'', JInt 21060), (''time'', JStr ''2025-11-03T14:30:00Z'')]"

section \<open>Both alignment flags stored as booleans\<close>

definition flags_present :: "'f pydict \<Rightarrow> bool" where
  "flags_present info =
     (case (map_of info ''above13'', map_of info ''above200'') of
        (Some (JBool a), Some (JBool b)) \<Rightarrow> True
      | _ \<Rightarrow> False)"

definition trends_have_flags :: "'f state \<Rightarrow> bool" where
  "trends_have_flags s = (\<forall>k info. EMA_STATE s k = Some info \<longrightarrow> flags_present info)"

section \<open>Facts about the helpers\<close>

lemma send_gateway_calls:
  "gateway_calls (snd (send_to_traderspost rt cfg payload s)) = gateway_calls s @ [payload]"
  by (simp add: send_to_traderspost_def Let_def split: sum.splits)

lemma send_keeps_dicts:
  "EMA_STATE (snd (send_to_traderspost rt cfg payload s)) = EMA_STATE s"
  "LAST_TRADES (snd (send_to_traderspost rt cfg payload s)) = LAST_TRADES s"
  by (simp_all add: send_to_traderspost_def Let_def split: sum.splits)

lemma send_ignores_EMA_STATE:
  "send_to_traderspost rt cfg payload (s\<lparr>EMA_STATE := e\<rparr>) =
     (fst (send_to_traderspost rt cfg payload s),
      (snd (send_to_traderspost rt cfg payload s))\<lparr>EMA_STATE := e\<rparr>)"
  by (simp add: send_to_traderspost_def Let_def split: sum.splits)

lemma exit_unfolded:
  "handle_exit_for_ticker rt cfg ticker price time_str s =
     (let payload = \<lparr>p_ticker = ticker, p_action = ''exit'', p_quantity = None, p_price = price\<rparr>;
          r = fst (send_to_traderspost rt cfg payload s);
          s1 = snd (send_to_traderspost rt cfg payload s)
      in (Detail (tp_ok r) r,
          s1\<lparr>LAST_TRADES := (LAST_TRADES s1)(ticker \<mapsto> Exit_trade price time_str r)\<rparr>))"
  by (simp add: handle_exit_for_ticker_def Let_def split_beta)

text \<open>The two ways \<open>handle_new_trade_for_ticker\<close> ends: a suppression with the state as it
  was, or an order sent and recorded.\<close>

lemma new_trade_cases:
  "handle_new_trade_for_ticker rt cfg ticker price time_str s = (out, s') \<Longrightarrow>
   (\<exists>reason. out = Skipped reason \<and> s' = s) \<or>
   (\<exists>ema_info direction.
      EMA_STATE s (KStr ticker) = Some ema_info \<and>
      (let payload = \<lparr>p_ticker = ticker, p_action = direction,
             p_quantity = (if TP_DEFAULT_QTY cfg > 0 then Some (TP_DEFAULT_QTY cfg) else None),
             p_price = price\<rparr>;
           r = fst (send_to_traderspost rt cfg payload s);
           s1 = snd (send_to_traderspost rt cfg payload s)
       in out = Detail (tp_ok r) r \<and>
          s' = s1\<lparr>LAST_TRADES := (LAST_TRADES s1)(ticker \<mapsto>
                 New_trade direction price (dict_get ema_info ''above13'' JNull)
                   (dict_get ema_info ''above200'' JNull) ema_info time_str r)\<rparr>))"
  by (auto simp: handle_new_trade_for_ticker_def Let_def split_beta split: option.splits if_splits)

lemma new_trade_aligned:
  assumes "EMA_STATE s (KStr ticker) = Some ema_info"
    and "map_of ema_info ''above13'' = Some (JBool a)"
    and "map_of ema_info ''above200'' = Some (JBool a)"
  shows "handle_new_trade_for_ticker rt cfg ticker price time_str s =
     (let payload = \<lparr>p_ticker = ticker, p_action = (if a then ''buy'' else ''sell''),
            p_quantity = (if TP_DEFAULT_QTY cfg > 0 then Some (TP_DEFAULT_QTY cfg) else None),
            p_price = price\<rparr>;
          r = fst (send_to_traderspost rt cfg payload s);
          s1 = snd (send_to_traderspost rt cfg payload s)
      in (Detail (tp_ok r) r,
          s1\<lparr>LAST_TRADES := (LAST_TRADES s1)(ticker \<mapsto>
            New_trade (if a then ''buy'' else ''sell'') price (JBool a) (JBool a) ema_info time_str r)\<rparr>))"
proof -
  from assms have ne: "ema_info \<noteq> []" by auto
  show ?thesis
    using assms ne
    by (cases a) (simp_all add: handle_new_trade_for_ticker_def dict_get_def Let_def split_beta)
qed

lemma new_trade_keeps_EMA_STATE:
  "EMA_STATE (snd (handle_new_trade_for_ticker rt cfg ticker price time_str s)) = EMA_STATE s"
  by (simp add: handle_new_trade_for_ticker_def Let_def split_beta send_keeps_dicts
      split: option.splits)

lemma exit_keeps_EMA_STATE:
  "EMA_STATE (snd (handle_exit_for_ticker rt cfg ticker price time_str s)) = EMA_STATE s"
  by (simp add: handle_exit_for_ticker_def Let_def split_beta send_keeps_dicts)

text \<open>Lowering a text gives \<open>true\<close> exactly for the sixteen spellings of the word.\<close>

lemma lower_char_eq_t: "lower_char c = CHR ''t'' \<longleftrightarrow> c = CHR ''t'' \<or> c = CHR ''T''"
  by (auto simp: lower_char_def split: if_splits)

lemma lower_char_eq_r: "lower_char c = CHR ''r'' \<longleftrightarrow> c = CHR ''r'' \<or> c = CHR ''R''"
  by (auto simp: lower_char_def split: if_splits)

lemma lower_char_eq_u: "lower_char c = CHR ''u'' \<longleftrightarrow> c = CHR ''u'' \<or> c = CHR ''U''"
  by (auto simp: lower_char_def split: if_splits)

lemma lower_char_eq_e: "lower_char c = CHR ''e'' \<longleftrightarrow> c = CHR ''e'' \<or> c = CHR ''E''"
  by (auto simp: lower_char_def split: if_splits)

lemma py_lower_true: "py_lower w = ''true'' \<longleftrightarrow> is_true_word w"
  by (induction w rule: is_true_word.induct)
     (auto simp: py_lower_def lower_char_eq_t lower_char_eq_r lower_char_eq_u lower_char_eq_e)

lemma update_stored:
  assumes "py_truthy rt (dict_get data ''ticker'' JNull)"
    and "dict_key rt (dict_get data ''ticker'' JNull) = Inr k"
  shows "update_ema_state_from_json rt data s =
     Inr (s\<lparr>EMA_STATE := (EMA_STATE s)(k \<mapsto>
       [(''above13'', JBool (is_true_word (py_str rt (dict_get data ''above13'' (JStr ''''))))),
        (''above200'', JBool (is_true_word (py_str rt (dict_get data ''above200'' (JStr ''''))))),
        (''ema13'', JFloat (float_or_zero rt data ''ema13'')),
        (''ema200'', JFloat (float_or_zero rt data ''ema200'')),
        (''close'', JFloat (float_or_zero rt data ''close'')),
        (''time'', dict_get data ''time'' (JStr ''''))])\<rparr>)"
  using assms by (simp add: update_ema_state_from_json_def Let_def py_lower_true)

text \<open>An update raises only at the assignment, on a ticker that cannot be a key.\<close>

lemma update_fails_only_unhashable:
  "update_ema_state_from_json rt data s = Inl e \<longleftrightarrow>
     py_truthy rt (dict_get data ''ticker'' JNull) \<and>
     dict_key rt (dict_get data ''ticker'' JNull) = Inl e"
  by (auto simp: update_ema_state_from_json_def Let_def split: sum.splits)

text \<open>Every call keeps the flags of every stored trend.\<close>

lemma update_keeps_flags:
  assumes "trends_have_flags s" and "update_ema_state_from_json rt data s = Inr s'"
  shows "trends_have_flags s'"
  using assms
  by (auto simp: trends_have_flags_def update_ema_state_from_json_def Let_def flags_present_def
      split: if_splits sum.splits)

lemma apply_call_keeps_flags:
  "trends_have_flags s \<Longrightarrow> trends_have_flags (apply_call rt cfg c s)"
proof (cases c)
  case (Update data)
  assume "trends_have_flags s"
  with Update show ?thesis
    by (auto split: sum.splits intro: update_keeps_flags)
next
  case (New_trade_signal ticker price time_str)
  assume "trends_have_flags s"
  with New_trade_signal show ?thesis
    by (simp add: trends_have_flags_def new_trade_keeps_EMA_STATE)
next
  case (Exit_signal ticker price time_str)
  assume "trends_have_flags s"
  with Exit_signal show ?thesis
    by (simp add: trends_have_flags_def exit_keeps_EMA_STATE)
qed

lemma run_calls_keeps_flags:
  "trends_have_flags s \<Longrightarrow> trends_have_flags (run_calls rt cfg cs s)"
  by (induction cs arbitrary: s) (simp_all add: apply_call_keeps_flags)

lemma initial_has_flags: "trends_have_flags initial_state"
  by (simp add: trends_have_flags_def initial_state_def)

lemma flags_present_not_missing:
  assumes "trends_have_flags s"
  shows "fst (handle_new_trade_for_ticker rt cfg ticker price time_str s) \<noteq> Skipped ''missing_ema_fields''"
proof (cases "EMA_STATE s (KStr ticker)")
  case None
  then show ?thesis by (simp add: handle_new_trade_for_ticker_def)
next
  case (Some info)
  with assms have "flags_present info" by (simp add: trends_have_flags_def)
  then obtain a b
    where "map_of info ''above13'' = Some (JBool a)" "map_of info ''above200'' = Some (JBool b)"
    by (auto simp: flags_present_def split: option.splits json.splits)
  with Some show ?thesis
    by (simp add: handle_new_trade_for_ticker_def dict_get_def Let_def split_beta)
qed

section \<open>The order submission gateway\<close>

text \<open>
  C7, as the code has it. The claim gives the error text of an unconfigured endpoint as
  \<open>endpoint not configured\<close>; the code answers \<open>TP_WEBHOOK_URL not set\<close>. With that text the
  rest holds: with no endpoint configured \<open>send_to_traderspost\<close> returns at once the failure
  \<open>{"ok": False, "error": "TP_WEBHOOK_URL not set"}\<close> and \<open>requests.post\<close> is not called; with
  an endpoint it calls \<open>requests.post\<close> once and returns a dictionary whether the call
  answers or raises. No path of the function raises.
\<close>

theorem gateway_returns_data:
  "(TP_WEBHOOK_URL cfg = [] \<longrightarrow>
      send_to_traderspost rt cfg payload s =
        (TpError ''TP_WEBHOOK_URL not set'', s\<lparr>gateway_calls := gateway_calls s @ [payload]\<rparr>) \<and>
      \<not> tp_ok (fst (send_to_traderspost rt cfg payload s)) \<and>
      http_posts (snd (send_to_traderspost rt cfg payload s)) = http_posts s) \<and>
   (TP_WEBHOOK_URL cfg \<noteq> [] \<longrightarrow>
      fst (send_to_traderspost rt cfg payload s) =
        (case requests_post rt (http_posts s) (TP_WEBHOOK_URL cfg) payload of
           Inl e \<Rightarrow> TpError e
         | Inr resp \<Rightarrow> TpResponse (resp_ok resp) (resp_status_code resp) (resp_text resp)) \<and>
      http_posts (snd (send_to_traderspost rt cfg payload s)) =
        http_posts s @ [(TP_WEBHOOK_URL cfg, payload)])"
  by (simp add: send_to_traderspost_def Let_def split: sum.splits)

text \<open>The theorem at an exit order for \<open>MNQZ2025\<close>, once with no endpoint and once with one.\<close>

theorem gateway_returns_data_witness:
  "TP_WEBHOOK_URL default_config = [] \<and>
   send_to_traderspost example_runtime default_config
       \<lparr>p_ticker = ''MNQZ2025'', p_action = ''exit'', p_quantity = None, p_price = Some 21040\<rparr>
       initial_state =
     (TpError ''TP_WEBHOOK_URL not set'',
      initial_state\<lparr>gateway_calls :=
        [\<lparr>p_ticker = ''MNQZ2025'', p_action = ''exit'', p_quantity = None, p_price = Some 21040\<rparr>]\<rparr>) \<and>
   TP_WEBHOOK_URL (default_config\<lparr>TP_WEBHOOK_URL := ''https://broker.example/hook''\<rparr>) \<noteq> [] \<and>
   fst (send_to_traderspost example_runtime
          (default_config\<lparr>TP_WEBHOOK_URL := ''https://broker.example/hook''\<rparr>)
          \<lparr>p_ticker = ''MNQZ2025'', p_action = ''exit'', p_quantity = None, p_price = Some 21040\<rparr>
          initial_state) =
     TpResponse True 200 ''accepted''"
  using gateway_returns_data [of default_config example_runtime
      "\<lparr>p_ticker = ''MNQZ2025'', p_action = ''exit'', p_quantity = None, p_price = Some 21040\<rparr>"
      initial_state]
    gateway_returns_data [of "default_config\<lparr>TP_WEBHOOK_URL := ''https://broker.example/hook''\<rparr>"
      example_runtime
      "\<lparr>p_ticker = ''MNQZ2025'', p_action = ''exit'', p_quantity = None, p_price = Some 21040\<rparr>"
      initial_state]
  by (simp add: default_config_def example_runtime_def initial_state_def)

text \<open>C7 as stated fails: with no endpoint configured the error is not
  \<open>endpoint not configured\<close>.\<close>

theorem gateway_unconfigured_counterexample:
  "TP_WEBHOOK_URL default_config = [] \<and>
   fst (send_to_traderspost example_runtime default_config
     \<lparr>p_ticker = ''MNQZ2025'', p_action = ''exit'', p_quantity = None, p_price = None\<rparr> initial_state)
   \<noteq> TpError ''endpoint not configured''"
  by (simp add: send_to_traderspost_def default_config_def)

section \<open>Entry signals\<close>

text \<open>
  C2, as the code has it. The claim names the reason \<open>no_trend_state\<close>; the code returns
  \<open>{"ok": True, "skipped": "no_ema_state"}\<close>. With that reason the rest holds: for a ticker
  with no entry in \<open>EMA_STATE\<close>, \<open>handle_new_trade_for_ticker\<close> returns the suppression and
  the state it was given, so \<open>send_to_traderspost\<close> is not called and \<open>LAST_TRADES\<close> is not
  written.
\<close>

theorem no_trend_is_skipped:
  "EMA_STATE s (KStr ticker) = None \<Longrightarrow>
   handle_new_trade_for_ticker rt cfg ticker price time_str s = (Skipped ''no_ema_state'', s)"
  by (simp add: handle_new_trade_for_ticker_def)

theorem no_trend_is_skipped_witness:
  "EMA_STATE (initial_state :: rat state) (KStr ''MNQZ2025'') = None \<and>
   handle_new_trade_for_ticker example_runtime default_config ''MNQZ2025'' (Some 21065) None initial_state
     = (Skipped ''no_ema_state'', initial_state)"
  using no_trend_is_skipped
    [of "initial_state :: rat state" "''MNQZ2025''" example_runtime default_config "Some 21065" None]
  by (simp add: initial_state_def)

text \<open>C2 as stated fails: the reason returned for a ticker with no stored trend is not
  \<open>no_trend_state\<close>.\<close>

theorem no_trend_counterexample:
  "EMA_STATE (initial_state :: rat state) (KStr ''MNQZ2025'') = None \<and>
   fst (handle_new_trade_for_ticker example_runtime default_config ''MNQZ2025'' None None initial_state)
     \<noteq> Skipped ''no_trend_state''"
  by (simp add: handle_new_trade_for_ticker_def initial_state_def)

section \<open>Trend updates\<close>

text \<open>
  C10. A trend update with no \<open>ticker\<close> key returns normally and leaves the whole state,
  \<open>EMA_STATE\<close> included, as it was.
\<close>

theorem update_without_ticker_is_noop:
  "map_of data ''ticker'' = None \<Longrightarrow> update_ema_state_from_json rt data s = Inr s"
  by (simp add: update_ema_state_from_json_def dict_get_def)

theorem update_without_ticker_is_noop_witness:
  "map_of [(''type'', JStr ''ema_update''), (''above13'', JStr ''true'')] ''ticker'' = None \<and>
   update_ema_state_from_json example_runtime
     [(''type'', JStr ''ema_update''), (''above13'', JStr ''true'')] initial_state = Inr initial_state"
  using update_without_ticker_is_noop
    [of "[(''type'', JStr ''ema_update''), (''above13'', JStr ''true'')]" example_runtime initial_state]
  by simp

section \<open>The alignment rule and the ledger\<close>

text \<open>
  C1. For a ticker whose stored trend has both alignment flags as booleans,
  \<open>handle_new_trade_for_ticker\<close> decides buy when both are true and sell when both are
  false: it calls the gateway once with an order whose action is that direction, records
  that direction in \<open>LAST_TRADES\<close>, and returns the gateway's outcome. When the two flags
  differ it returns the suppression \<open>ema_alignment_filter\<close> and the state it was given, so
  the gateway is not called and \<open>LAST_TRADES\<close> is as before.
\<close>

theorem entry_follows_alignment:
  assumes "EMA_STATE s (KStr ticker) = Some ema_info"
    and "map_of ema_info ''above13'' = Some (JBool a)"
    and "map_of ema_info ''above200'' = Some (JBool b)"
  shows "(\<forall>direction. a \<and> b \<and> direction = ''buy'' \<or> \<not> a \<and> \<not> b \<and> direction = ''sell'' \<longrightarrow>
           (let payload = \<lparr>p_ticker = ticker, p_action = direction,
                  p_quantity = (if TP_DEFAULT_QTY cfg > 0 then Some (TP_DEFAULT_QTY cfg) else None),
                  p_price = price\<rparr>;
                r = fst (send_to_traderspost rt cfg payload s);
                out = handle_new_trade_for_ticker rt cfg ticker price time_str s
            in fst out = Detail (tp_ok r) r \<and>
               gateway_calls (snd out) = gateway_calls s @ [payload] \<and>
               LAST_TRADES (snd out) ticker =
                 Some (New_trade direction price (JBool a) (JBool b) ema_info time_str r))) \<and>
         (a \<noteq> b \<longrightarrow>
           handle_new_trade_for_ticker rt cfg ticker price time_str s =
             (Skipped ''ema_alignment_filter'', s))"
proof (cases "a = b")
  case True
  with assms show ?thesis
    by (auto simp: new_trade_aligned [OF assms(1) assms(2)] Let_def send_gateway_calls)
next
  case False
  from assms have ne: "ema_info \<noteq> []" by auto
  from False assms ne show ?thesis
    by (cases a; cases b) (simp_all add: handle_new_trade_for_ticker_def dict_get_def)
qed

text \<open>The four combinations of the flags for \<open>MNQZ2025\<close>, with an entry signal at 21065.\<close>

theorem entry_follows_alignment_witness:
  "fst (handle_new_trade_for_ticker example_runtime example_config ''MNQZ2025'' (Some 21065) None
          (example_state True True)) = Detail True (TpResponse True 200 ''accepted'') \<and>
   gateway_calls (snd (handle_new_trade_for_ticker example_runtime example_config ''MNQZ2025''
          (Some 21065) None (example_state True True))) =
     [\<lparr>p_ticker = ''MNQZ2025'', p_action = ''buy'', p_quantity = Some 1, p_price = Some 21065\<rparr>] \<and>
   LAST_TRADES (snd (handle_new_trade_for_ticker example_runtime example_config ''MNQZ2025''
          (Some 21065) None (example_state True True))) ''MNQZ2025'' =
     Some (New_trade ''buy'' (Some 21065) (JBool True) (JBool True) (example_trend True True) None
             (TpResponse True 200 ''accepted'')) \<and>
   gateway_calls (snd (handle_new_trade_for_ticker example_runtime example_config ''MNQZ2025''
          (Some 21065) None (example_state False False))) =
     [\<lparr>p_ticker = ''MNQZ2025'', p_action = ''sell'', p_quantity = Some 1, p_price = Some 21065\<rparr>] \<and>
   LAST_TRADES (snd (handle_new_trade_for_ticker example_runtime example_config ''MNQZ2025''
          (Some 21065) None (example_state False False))) ''MNQZ2025'' =
     Some (New_trade ''sell'' (Some 21065) (JBool False) (JBool False) (example_trend False False) None
             (TpResponse True 200 ''accepted'')) \<and>
   handle_new_trade_for_ticker example_runtime example_config ''MNQZ2025'' (Some 21065) None
          (example_state True False) = (Skipped ''ema_alignment_filter'', example_state True False) \<and>
   handle_new_trade_for_ticker example_runtime example_config ''MNQZ2025'' (Some 21065) None
          (example_state False True) = (Skipped ''ema_alignment_filter'', example_state False True)"
  using
    entry_follows_alignment [of "example_state True True" "''MNQZ2025''" "example_trend True True"
      True True example_config "Some 21065" example_runtime None]
    entry_follows_alignment [of "example_state False False" "''MNQZ2025''" "example_trend False False"
      False False example_config "Some 21065" example_runtime None]
    entry_follows_alignment [of "example_state True False" "''MNQZ2025''" "example_trend True False"
      True False example_config "Some 21065" example_runtime None]
    entry_follows_alignment [of "example_state False True" "''MNQZ2025''" "example_trend False True"
      False True example_config "Some 21065" example_runtime None]
  by (simp add: example_state_def example_trend_def example_config_def default_config_def
      example_runtime_def initial_state_def send_to_traderspost_def Let_def)



text \<open>
  C6. After any sequence of calls from the empty dictionaries, every trend stored in
  \<open>EMA_STATE\<close> has both \<open>above13\<close> and \<open>above200\<close> bound to booleans, and
  \<open>handle_new_trade_for_ticker\<close> does not return the suppression \<open>missing_ema_fields\<close>, for any
  ticker, price and time.
\<close>

theorem missing_fields_unreachable:
  "(\<forall>k info. EMA_STATE (run_calls rt cfg calls initial_state) k = Some info \<longrightarrow> flags_present info) \<and>
   (\<forall>ticker price time_str.
      fst (handle_new_trade_for_ticker rt cfg ticker price time_str (run_calls rt cfg calls initial_state))
        \<noteq> Skipped ''missing_ema_fields'')"
  using run_calls_keeps_flags [OF initial_has_flags, of rt cfg calls]
  by (simp add: flags_present_not_missing) (simp add: trends_have_flags_def)

text \<open>One update for \<open>MNQZ2025\<close> followed by an entry signal: the stored trend has both
  flags, and a second entry signal is filtered, not reported as missing fields.\<close>

theorem missing_fields_unreachable_witness:
  "EMA_STATE (run_calls example_runtime example_config
       [Update example_update, New_trade_signal ''MNQZ2025'' (Some 21065) None] initial_state)
     (KStr ''MNQZ2025'') =
     Some [(''above13'', JBool True), (''above200'', JBool False), (''ema13'', JFloat (84201 / 4)),
           (''ema200'', JFloat 0), (''close'', JFloat 21060), (''time'', JStr ''2025-11-03T14:30:00Z'')] \<and>
   flags_present
     ([(''above13'', JBool True), (''above200'', JBool False), (''ema13'', JFloat (84201 / 4)),
       (''ema200'', JFloat 0), (''close'', JFloat 21060), (''time'', JStr ''2025-11-03T14:30:00Z'')]
      :: rat pydict) \<and>
   fst (handle_new_trade_for_ticker example_runtime example_config ''MNQZ2025'' (Some 21065) None
     (run_calls example_runtime example_config
       [Update example_update, New_trade_signal ''MNQZ2025'' (Some 21065) None] initial_state))
     \<noteq> Skipped ''missing_ema_fields''"
proof -
  have stored: "EMA_STATE (run_calls example_runtime example_config
       [Update example_update, New_trade_signal ''MNQZ2025'' (Some 21065) None] initial_state)
     (KStr ''MNQZ2025'') =
     Some [(''above13'', JBool True), (''above200'', JBool False), (''ema13'', JFloat (84201 / 4)),
           (''ema200'', JFloat 0), (''close'', JFloat 21060), (''time'', JStr ''2025-11-03T14:30:00Z'')]"
    by (simp add: new_trade_keeps_EMA_STATE update_ema_state_from_json_def example_update_def
        example_runtime_def initial_state_def dict_get_def py_lower_def lower_char_def
        float_or_zero_def decimal_value_def digit_value_def Let_def)
  note both = missing_fields_unreachable [of example_runtime example_config
      "[Update example_update, New_trade_signal ''MNQZ2025'' (Some 21065) None]"]
  note flags = both [THEN conjunct1, rule_format, OF stored]
  note reason = both [THEN conjunct2, rule_format, of "''MNQZ2025''" "Some 21065" None]
  show ?thesis by (intro conjI stored flags reason)
qed

section \<open>Exit signals\<close>

text \<open>
  C3. For every ticker and optional price, \<open>handle_exit_for_ticker\<close> calls the gateway once,
  with the payload of that ticker, action \<open>exit\<close>, the price when there is one and no
  quantity; it records the exit with the gateway's outcome in \<open>LAST_TRADES\<close> and returns
  that outcome. It does not read \<open>EMA_STATE\<close>: with any other content \<open>e\<close> of \<open>EMA_STATE\<close>
  (the empty one included) it returns the same result and leaves \<open>e\<close> in place.
\<close>

theorem exit_always_submits:
  "(let payload = \<lparr>p_ticker = ticker, p_action = ''exit'', p_quantity = None, p_price = price\<rparr>;
        r = fst (send_to_traderspost rt cfg payload s);
        out = handle_exit_for_ticker rt cfg ticker price time_str s
    in fst out = Detail (tp_ok r) r \<and>
       gateway_calls (snd out) = gateway_calls s @ [payload] \<and>
       LAST_TRADES (snd out) ticker = Some (Exit_trade price time_str r) \<and>
       EMA_STATE (snd out) = EMA_STATE s \<and>
       (\<forall>e. handle_exit_for_ticker rt cfg ticker price time_str (s\<lparr>EMA_STATE := e\<rparr>) =
              (fst out, (snd out)\<lparr>EMA_STATE := e\<rparr>)))"
  by (simp add: exit_unfolded Let_def send_gateway_calls send_keeps_dicts send_ignores_EMA_STATE)

text \<open>An exit signal for \<open>MNQZ2025\<close> at 21040 with no stored trend.\<close>

theorem exit_always_submits_witness:
  "handle_exit_for_ticker example_runtime example_config ''MNQZ2025'' (Some 21040) None initial_state =
     (Detail True (TpResponse True 200 ''accepted''),
      \<lparr>EMA_STATE = Map.empty,
       LAST_TRADES = [''MNQZ2025'' \<mapsto> Exit_trade (Some 21040) None (TpResponse True 200 ''accepted'')],
       gateway_calls =
         [\<lparr>p_ticker = ''MNQZ2025'', p_action = ''exit'', p_quantity = None, p_price = Some 21040\<rparr>],
       http_posts =
         [(''https://broker.example/hook'',
           \<lparr>p_ticker = ''MNQZ2025'', p_action = ''exit'', p_quantity = None, p_price = Some 21040\<rparr>)]\<rparr>)"
  using exit_always_submits [of "''MNQZ2025''" "Some 21040" example_runtime example_config
      initial_state None]
  by (simp add: handle_exit_for_ticker_def send_to_traderspost_def example_config_def
      default_config_def example_runtime_def initial_state_def Let_def)

section \<open>Trend updates stored\<close>

text \<open>
  C4. An update whose ticker is truthy and can be a dictionary key is accepted: it returns
  normally and stores a trend under that key. In the stored trend \<open>above13\<close> is the boolean
  saying whether the text of the field \<open>above13\<close> (\<open>str\<close> of its value, the empty text when
  the field is absent) is one of the spellings of \<open>true\<close>, so an absent field gives
  \<open>False\<close>; likewise \<open>above200\<close>. Each of \<open>ema13\<close>, \<open>ema200\<close>, \<open>close\<close> is the float
  \<open>float\<close> gives for the field (for \<open>0.0\<close> when it is absent), and \<open>0.0\<close> when \<open>float\<close> raises;
  a field that does not parse does not make the update fail.
\<close>

theorem update_stores_trend:
  assumes "py_truthy rt (dict_get data ''ticker'' JNull)"
    and "dict_key rt (dict_get data ''ticker'' JNull) = Inr k"
  shows "\<exists>s' trend.
      update_ema_state_from_json rt data s = Inr s' \<and> EMA_STATE s' k = Some trend \<and>
      map_of trend ''above13'' =
        Some (JBool (is_true_word (py_str rt (dict_get data ''above13'' (JStr ''''))))) \<and>
      map_of trend ''above200'' =
        Some (JBool (is_true_word (py_str rt (dict_get data ''above200'' (JStr ''''))))) \<and>
      (map_of data ''above13'' = None \<longrightarrow> map_of trend ''above13'' = Some (JBool False)) \<and>
      (map_of data ''above200'' = None \<longrightarrow> map_of trend ''above200'' = Some (JBool False)) \<and>
      (\<forall>field \<in> {''ema13'', ''ema200'', ''close''}.
         map_of trend field =
           Some (JFloat (case py_float rt (dict_get data field (JFloat (float_zero rt))) of
                           Some f \<Rightarrow> f
                         | None \<Rightarrow> float_zero rt)))"
  by (simp add: update_stored [OF assms] float_or_zero_def dict_get_def)

text \<open>
  The update of the examples: \<open>above13\<close> is \<open>TRUE\<close>, \<open>above200\<close> is \<open>false\<close>, \<open>ema13\<close> parses,
  \<open>ema200\<close> is \<open>n/a\<close> and becomes 0, \<open>close\<close> is an integer. Then an update that has only a
  ticker: both flags are false and the three numbers are 0.
\<close>

theorem update_stores_trend_witness:
  "update_ema_state_from_json example_runtime example_update initial_state =
     Inr (initial_state\<lparr>EMA_STATE := [KStr ''MNQZ2025'' \<mapsto>
       [(''above13'', JBool True), (''above200'', JBool False), (''ema13'', JFloat (84201 / 4)),
        (''ema200'', JFloat 0), (''close'', JFloat 21060), (''time'', JStr ''2025-11-03T14:30:00Z'')]]\<rparr>) \<and>
   update_ema_state_from_json example_runtime [(''ticker'', JStr ''MNQZ2025'')] initial_state =
     Inr (initial_state\<lparr>EMA_STATE := [KStr ''MNQZ2025'' \<mapsto>
       [(''above13'', JBool False), (''above200'', JBool False), (''ema13'', JFloat 0),
        (''ema200'', JFloat 0), (''close'', JFloat 0), (''time'', JStr '''')]]\<rparr>)"
  using update_stores_trend [of example_runtime example_update "KStr ''MNQZ2025''" initial_state]
    update_stores_trend [of example_runtime "[(''ticker'', JStr ''MNQZ2025'')]" "KStr ''MNQZ2025''"
      initial_state]
  by (simp add: update_ema_state_from_json_def example_update_def example_runtime_def
      initial_state_def dict_get_def py_lower_def lower_char_def float_or_zero_def
      decimal_value_def digit_value_def Let_def)

section \<open>What each function leaves alone\<close>

text \<open>
  C9. \<open>handle_new_trade_for_ticker\<close> and \<open>handle_exit_for_ticker\<close> leave \<open>EMA_STATE\<close> as it
  was and change \<open>LAST_TRADES\<close> at most at the ticker they are called with; an update that
  returns leaves \<open>LAST_TRADES\<close> as it was and changes \<open>EMA_STATE\<close> at most at the key of its
  ticker.
\<close>

theorem handlers_frame:
  "EMA_STATE (snd (handle_new_trade_for_ticker rt cfg ticker price time_str s)) = EMA_STATE s \<and>
   (\<forall>t. t \<noteq> ticker \<longrightarrow>
      LAST_TRADES (snd (handle_new_trade_for_ticker rt cfg ticker price time_str s)) t = LAST_TRADES s t) \<and>
   EMA_STATE (snd (handle_exit_for_ticker rt cfg ticker price time_str s)) = EMA_STATE s \<and>
   (\<forall>t. t \<noteq> ticker \<longrightarrow>
      LAST_TRADES (snd (handle_exit_for_ticker rt cfg ticker price time_str s)) t = LAST_TRADES s t) \<and>
   (\<forall>s'. update_ema_state_from_json rt data s = Inr s' \<longrightarrow>
      LAST_TRADES s' = LAST_TRADES s \<and>
      (\<forall>k. dict_key rt (dict_get data ''ticker'' JNull) \<noteq> Inr k \<longrightarrow> EMA_STATE s' k = EMA_STATE s k))"
proof (intro conjI)
  show "EMA_STATE (snd (handle_new_trade_for_ticker rt cfg ticker price time_str s)) = EMA_STATE s"
    by (rule new_trade_keeps_EMA_STATE)
  show "EMA_STATE (snd (handle_exit_for_ticker rt cfg ticker price time_str s)) = EMA_STATE s"
    by (rule exit_keeps_EMA_STATE)
  show "\<forall>t. t \<noteq> ticker \<longrightarrow>
      LAST_TRADES (snd (handle_new_trade_for_ticker rt cfg ticker price time_str s)) t = LAST_TRADES s t"
  proof -
    obtain out s1 where h: "handle_new_trade_for_ticker rt cfg ticker price time_str s = (out, s1)"
      by (cases "handle_new_trade_for_ticker rt cfg ticker price time_str s")
    have "\<forall>t. t \<noteq> ticker \<longrightarrow> LAST_TRADES s1 t = LAST_TRADES s t"
      using new_trade_cases [OF h] by (auto simp: Let_def send_keeps_dicts)
    with h show ?thesis by simp
  qed
  show "\<forall>t. t \<noteq> ticker \<longrightarrow>
      LAST_TRADES (snd (handle_exit_for_ticker rt cfg ticker price time_str s)) t = LAST_TRADES s t"
    by (simp add: exit_unfolded Let_def send_keeps_dicts)
  show "\<forall>s'. update_ema_state_from_json rt data s = Inr s' \<longrightarrow>
      LAST_TRADES s' = LAST_TRADES s \<and>
      (\<forall>k. dict_key rt (dict_get data ''ticker'' JNull) \<noteq> Inr k \<longrightarrow> EMA_STATE s' k = EMA_STATE s k)"
    by (auto simp: update_ema_state_from_json_def Let_def split: if_splits sum.splits)
qed

text \<open>
  A state with a trend and a trade for \<open>ESZ2025\<close> next to the trend of \<open>MNQZ2025\<close>: an entry
  and an exit for \<open>MNQZ2025\<close> keep the trade of \<open>ESZ2025\<close>, and an update for \<open>MNQZ2025\<close> keeps
  the trend of \<open>ESZ2025\<close> and the trades.
\<close>

theorem handlers_frame_witness:
  "''ESZ2025'' \<noteq> ''MNQZ2025'' \<and>
   LAST_TRADES (snd (handle_new_trade_for_ticker example_runtime example_config ''MNQZ2025'' (Some 21065) None
       ((example_state True True)\<lparr>LAST_TRADES := [''ESZ2025'' \<mapsto> Exit_trade None None (TpError ''timeout'')]\<rparr>)))
     ''ESZ2025'' = Some (Exit_trade None None (TpError ''timeout'')) \<and>
   LAST_TRADES (snd (handle_exit_for_ticker example_runtime example_config ''MNQZ2025'' (Some 21040) None
       ((example_state True True)\<lparr>LAST_TRADES := [''ESZ2025'' \<mapsto> Exit_trade None None (TpError ''timeout'')]\<rparr>)))
     ''ESZ2025'' = Some (Exit_trade None None (TpError ''timeout'')) \<and>
   dict_key example_runtime (dict_get example_update ''ticker'' JNull) \<noteq> Inr (KStr ''ESZ2025'') \<and>
   (\<exists>s'. update_ema_state_from_json example_runtime example_update
       (initial_state\<lparr>EMA_STATE := [KStr ''ESZ2025'' \<mapsto> example_trend False False],
          LAST_TRADES := [''ESZ2025'' \<mapsto> Exit_trade None None (TpError ''timeout'')]\<rparr>) = Inr s' \<and>
      EMA_STATE s' (KStr ''ESZ2025'') = Some (example_trend False False) \<and>
      EMA_STATE s' (KStr ''MNQZ2025'') =
        Some [(''above13'', JBool True), (''above200'', JBool False), (''ema13'', JFloat (84201 / 4)),
              (''ema200'', JFloat 0), (''close'', JFloat 21060), (''time'', JStr ''2025-11-03T14:30:00Z'')] \<and>
      LAST_TRADES s' = [''ESZ2025'' \<mapsto> Exit_trade None None (TpError ''timeout'')])"
  using handlers_frame [of example_runtime example_config "''MNQZ2025''" "Some 21065" None
      "(example_state True True)\<lparr>LAST_TRADES := [''ESZ2025'' \<mapsto> Exit_trade None None (TpError ''timeout'')]\<rparr>"
      example_update]
    handlers_frame [of example_runtime example_config "''MNQZ2025''" "Some 21040" None
      "(example_state True True)\<lparr>LAST_TRADES := [''ESZ2025'' \<mapsto> Exit_trade None None (TpError ''timeout'')]\<rparr>"
      example_update]
    handlers_frame [of example_runtime example_config "''MNQZ2025''" "Some 21040" None
      "initial_state\<lparr>EMA_STATE := [KStr ''ESZ2025'' \<mapsto> example_trend False False],
          LAST_TRADES := [''ESZ2025'' \<mapsto> Exit_trade None None (TpError ''timeout'')]\<rparr>"
      example_update]
  by (simp add: update_ema_state_from_json_def example_update_def example_trend_def
      example_state_def example_runtime_def initial_state_def dict_get_def py_lower_def
      lower_char_def float_or_zero_def decimal_value_def digit_value_def Let_def)

section \<open>Structured messages of an unknown type\<close>

text \<open>
  C8. For every request that reaches the classifier (no secret is configured, or the
  \<open>secret\<close> argument is the configured one) and whose body parses as a non-empty JSON
  object with a \<open>type\<close> other than \<open>ema_update\<close>, \<open>webhook\<close> answers with the client error
  400 whose error text is \<open>unknown json type\<close> followed by the type, and returns the state
  it was given: neither \<open>EMA_STATE\<close> nor \<open>LAST_TRADES\<close> is written. The secret check
  stands before the body is read, so a request it turns away never has its body parsed.
\<close>

theorem unknown_type_rejected:
  assumes "WEBHOOK_SECRET cfg = [] \<or> arg_secret req = Some (WEBHOOK_SECRET cfg)"
    and "json_loads rt (raw_body req) = Some (JDict data)"
    and "data \<noteq> []"
    and "dict_get data ''type'' JNull \<noteq> JStr ''ema_update''"
  shows "webhook rt cfg req s =
           (Inr (Error_body (''unknown json type '' @ py_str rt (dict_get data ''type'' JNull)), 400), s) \<and>
         EMA_STATE (snd (webhook rt cfg req s)) = EMA_STATE s \<and>
         LAST_TRADES (snd (webhook rt cfg req s)) = LAST_TRADES s"
  using assms by (auto simp: webhook_def Let_def)

text \<open>The body \<open>{"type": "unknown_kind"}\<close>, sent to a state that holds a trend, once with no
  secret configured and once with the configured secret.\<close>

theorem unknown_type_rejected_witness:
  \<open>webhook (example_runtime\<lparr>json_loads := (\<lambda>body. if body = ''{"type": "unknown_kind"}''
        then Some (JDict [(''type'', JStr ''unknown_kind'')]) else None)\<rparr>)
     example_config \<lparr>arg_secret = None, raw_body = ''{"type": "unknown_kind"}''\<rparr> (example_state True True) =
     (Inr (Error_body ''unknown json type unknown_kind'', 400), example_state True True) \<and>
   webhook (example_runtime\<lparr>json_loads := (\<lambda>body. if body = ''{"type": "unknown_kind"}''
        then Some (JDict [(''type'', JStr ''unknown_kind'')]) else None)\<rparr>)
     (example_config\<lparr>WEBHOOK_SECRET := ''s3cret''\<rparr>)
     \<lparr>arg_secret = Some ''s3cret'', raw_body = ''{"type": "unknown_kind"}''\<rparr> (example_state True True) =
     (Inr (Error_body ''unknown json type unknown_kind'', 400), example_state True True)\<close>
  using
    unknown_type_rejected [of example_config
      \<open>\<lparr>arg_secret = None, raw_body = ''{"type": "unknown_kind"}''\<rparr>\<close>
      \<open>example_runtime\<lparr>json_loads := (\<lambda>body. if body = ''{"type": "unknown_kind"}''
        then Some (JDict [(''type'', JStr ''unknown_kind'')]) else None)\<rparr>\<close>
      \<open>[(''type'', JStr ''unknown_kind'')]\<close> \<open>example_state True True\<close>]
    unknown_type_rejected [of \<open>example_config\<lparr>WEBHOOK_SECRET := ''s3cret''\<rparr>\<close>
      \<open>\<lparr>arg_secret = Some ''s3cret'', raw_body = ''{"type": "unknown_kind"}''\<rparr>\<close>
      \<open>example_runtime\<lparr>json_loads := (\<lambda>body. if body = ''{"type": "unknown_kind"}''
        then Some (JDict [(''type'', JStr ''unknown_kind'')]) else None)\<rparr>\<close>
      \<open>[(''type'', JStr ''unknown_kind'')]\<close> \<open>example_state True True\<close>]
  by (simp add: example_config_def default_config_def dict_get_def)

end
